theory Spec2Isabelle
  imports Main "HOL-Library.Word"
begin

section \<open>The Phantom wallet adapter (packages/wallets/phantom/src/adapter.ts)\<close>

text \<open>
  The adapter is a class with four private fields, living in a browser page: it reads and
  writes \<open>localStorage\<close>, reads \<open>window.location\<close>, assigns \<open>window.location.href\<close>
  and emits events. The model threads one record through every method: the private fields,
  the log of emitted events, and the part of the page the adapter touches. A method that
  can throw (or whose promise can reject) returns a pair: the outcome, \<open>Inl\<close> the thrown
  value, and the state reached, since what was written before the throw stays written.
\<close>

subsection \<open>Values\<close>

type_synonym bytes = "8 word list"

datatype WalletReadyState = Installed | NotDetected | Loadable | Unsupported

text \<open>
  Thrown values. \<open>WalletError\<close> and its subclasses come from the base package; every other
  thrown value (a \<open>TypeError\<close>, an error of bs58, tweetnacl or \<open>JSON.parse\<close>, a rejection of
  the extension) has class \<open>ForeignError\<close>. An error carries its message and, for the
  wrapping classes, the wrapped error.
\<close>

datatype error_class =
    ForeignError
  | WalletError
  | WalletNotReadyError
  | WalletConnectionError
  | WalletAccountError
  | WalletPublicKeyError
  | WalletDisconnectedError
  | WalletDisconnectionError
  | WalletNotConnectedError
  | WalletSendTransactionError
  | WalletSignTransactionError
  | WalletSignMessageError

datatype js_error = Thrown (error_class: error_class) (message: string) (cause: "js_error option")

definition instanceof_WalletError :: "js_error \<Rightarrow> bool" where
  "instanceof_WalletError e = (error_class e \<noteq> ForeignError)"

datatype event =
    Connect bytes
  | Disconnect
  | ErrorEvent js_error
  | ReadyStateChange WalletReadyState

text \<open>
  A URL as \<open>new URL\<close> parses it: everything before the query, the query as the ordered
  list of name/value pairs of \<open>searchParams\<close>, and the fragment.
\<close>

record url =
  base :: string
  searchParams :: "(string \<times> string) list"
  fragment :: string

text \<open>The names of the two handlers the adapter subscribes to the extension object.\<close>

datatype handler = H_disconnected | H_accountChanged

record PhantomWallet =
  isPhantom :: bool
  wallet_publicKey :: "bytes option"
  isConnected :: bool
  listeners :: "(string \<times> handler) list"

record transaction =
  versioned :: bool
  content :: bytes

record SendOptions =
  preflightCommitment :: "string option"
  otherOptions :: string

record SendTransactionOptions =
  signers :: "bytes list"
  sendOptions :: SendOptions

record Connection =
  commitment :: "string option"

record payload =
  payload_transaction :: string
  payload_sendOptions :: SendOptions
  payload_session :: "string option"

record connect_data =
  public_key :: "string option"
  session :: "string option"

text \<open>
  How a global name such as \<open>window\<close> is bound: reading an undeclared name throws a
  \<open>ReferenceError\<close> (only \<open>typeof\<close> is safe on it), a declared name may hold \<open>undefined\<close>.
\<close>

datatype js_global = Undeclared | Undefined | Defined

subsection \<open>The libraries and collaborators the adapter calls\<close>

text \<open>
  bs58, tweetnacl, \<open>JSON\<close>, \<open>PublicKey\<close>, the transaction objects, the inherited
  \<open>prepareTransaction\<close> and the methods of the injected extension object are not part of
  adapter.ts. They are parameters of the model, collected in one record. A function that
  can throw returns a sum. The two random generators are indexed by the number of draws
  made so far, which the state counts. \<open>wallet_connect\<close> and \<open>wallet_disconnect\<close> return
  the extension object as the call leaves it; its subscriptions change through \<open>on\<close> and
  \<open>off\<close> only, so the model keeps the list of listeners across both calls.
\<close>

record deps =
  bs58_encode :: "bytes \<Rightarrow> string"
  bs58_decode :: "string \<Rightarrow> js_error + bytes"
  nacl_box_keyPair :: "nat \<Rightarrow> bytes \<times> bytes"
  nacl_randomBytes :: "nat \<Rightarrow> nat \<Rightarrow> bytes"
  nacl_box_before :: "bytes \<Rightarrow> bytes \<Rightarrow> js_error + bytes"
  nacl_box_after :: "bytes \<Rightarrow> bytes \<Rightarrow> bytes \<Rightarrow> js_error + bytes"
  nacl_box_open_after :: "bytes \<Rightarrow> bytes \<Rightarrow> bytes \<Rightarrow> js_error + bytes option"
  JSON_parse :: "bytes \<Rightarrow> js_error + connect_data"
  JSON_stringify :: "payload \<Rightarrow> bytes"
  new_PublicKey_string :: "string option \<Rightarrow> js_error + bytes"
  new_PublicKey_bytes :: "bytes \<Rightarrow> js_error + bytes"
  Number_uint8 :: "string \<Rightarrow> 8 word"
  url_toString :: "url \<Rightarrow> string"
  prepareTransaction ::
    "bytes option \<Rightarrow> transaction \<Rightarrow> Connection \<Rightarrow> SendOptions \<Rightarrow> js_error + transaction"
  transaction_sign :: "transaction \<Rightarrow> bytes list \<Rightarrow> js_error + transaction"
  transaction_partialSign :: "transaction \<Rightarrow> bytes list \<Rightarrow> js_error + transaction"
  transaction_serialize :: "transaction \<Rightarrow> js_error + bytes"
  wallet_connect :: "PhantomWallet \<Rightarrow> js_error + PhantomWallet"
  wallet_disconnect :: "PhantomWallet \<Rightarrow> js_error + PhantomWallet"
  wallet_signTransaction :: "PhantomWallet \<Rightarrow> transaction \<Rightarrow> js_error + transaction option"
  wallet_signAllTransactions ::
    "PhantomWallet \<Rightarrow> transaction list \<Rightarrow> js_error + transaction list option"
  wallet_signMessage :: "PhantomWallet \<Rightarrow> bytes \<Rightarrow> js_error + bytes"
  wallet_signAndSendTransaction ::
    "PhantomWallet \<Rightarrow> transaction \<Rightarrow> SendOptions \<Rightarrow> js_error + string"

subsection \<open>The state\<close>

text \<open>
  \<open>priv_connecting\<close>, \<open>priv_wallet\<close>, \<open>priv_publicKey\<close> and \<open>priv_readyState\<close> are the
  private fields \<open>_connecting\<close>, \<open>_wallet\<close>, \<open>_publicKey\<close> and \<open>_readyState\<close>. The
  extension object is shared between \<open>window\<close> and \<open>_wallet\<close>, so objects live in a store
  and the three places hold addresses. \<open>navigations\<close> lists the URLs assigned to
  \<open>window.location.href\<close>, \<open>alerts\<close> the arguments of \<open>alert\<close>, in order.
\<close>

record state =
  priv_connecting :: bool
  priv_wallet :: "nat option"
  priv_publicKey :: "bytes option"
  priv_readyState :: WalletReadyState
  emitted :: "event list"
  polling_started :: bool
  window :: js_global
  document :: js_global
  location :: url
  localStorage :: "string \<rightharpoonup> string"
  heap :: "nat \<Rightarrow> PhantomWallet"
  window_phantom_solana :: "nat option"
  window_solana :: "nat option"
  navigations :: "url list"
  alerts :: "url list"
  box_keyPair_calls :: nat
  randomBytes_calls :: nat

definition emit :: "event \<Rightarrow> state \<Rightarrow> state" where
  "emit ev s = s\<lparr>emitted := emitted s @ [ev]\<rparr>"

definition deepLinkPublicKeyStorage :: string where
  "deepLinkPublicKeyStorage = ''PHANTOM_DEEP_LINK_PUBLIC_KEY''"

definition deepLinkSecretKeyStorage :: string where
  "deepLinkSecretKeyStorage = ''PHANTOM_DEEP_LINK_SECRET_KEY''"

definition deepLinkSharedSecretStorage :: string where
  "deepLinkSharedSecretStorage = ''PHANTOM_DEEP_LINK_SHARED_SECRET''"

definition deepLinkSessionStorage :: string where
  "deepLinkSessionStorage = ''PHANTOM_DEEP_LINK_SESSION''"

subsection \<open>Construction and the getters\<close>

text \<open>The constant of the constructor: \<open>const useDeepLink = true\<close>.\<close>

definition useDeepLink :: bool where
  "useDeepLink = True"

text \<open>
  The callback handed to \<open>scopePollingDetectionStrategy\<close>: it looks for the extension's
  marker and, when it finds it, sets the ready state to \<open>Installed\<close> and returns true.
\<close>

definition detected :: "state \<Rightarrow> bool" where
  "detected s =
     ((case window_phantom_solana s of Some r \<Rightarrow> isPhantom (heap s r) | None \<Rightarrow> False) \<or>
      (case window_solana s of Some r \<Rightarrow> isPhantom (heap s r) | None \<Rightarrow> False))"

definition detect :: "state \<Rightarrow> bool \<times> state" where
  "detect s =
     (if detected s
      then (True, emit (ReadyStateChange Installed) (s\<lparr>priv_readyState := Installed\<rparr>))
      else (False, s))"

text \<open>
  \<open>new PhantomWalletAdapter()\<close> in the page described by the argument: the adapter's own
  fields of the argument are overwritten. The field initialiser of \<open>_readyState\<close> runs
  first, then the constructor body.
\<close>

definition constructor :: "state \<Rightarrow> state" where
  "constructor page =
     (let s = page\<lparr>priv_connecting := False, priv_wallet := None, priv_publicKey := None,
                   priv_readyState :=
                     (if window page \<noteq> Defined \<or> document page \<noteq> Defined
                      then Unsupported else NotDetected),
                   emitted := [], polling_started := False\<rparr>
      in if priv_readyState s \<noteq> Unsupported
         then (if useDeepLink
               then emit (ReadyStateChange Loadable) (s\<lparr>priv_readyState := Loadable\<rparr>)
               else s\<lparr>polling_started := True\<rparr>)
         else s)"

definition publicKey :: "state \<Rightarrow> bytes option" where
  "publicKey s = priv_publicKey s"

definition connecting :: "state \<Rightarrow> bool" where
  "connecting s = priv_connecting s"

definition connected :: "state \<Rightarrow> bool" where
  "connected s = (case priv_wallet s of None \<Rightarrow> False | Some r \<Rightarrow> isConnected (heap s r))"

definition readyState :: "state \<Rightarrow> WalletReadyState" where
  "readyState s = priv_readyState s"

subsection \<open>Durable storage\<close>

text \<open>
  \<open>Uint8Array.prototype.toString\<close> joins the decimal numerals of the bytes with commas.
\<close>

definition digit_char :: "nat \<Rightarrow> char" where
  "digit_char d = ''0123456789'' ! d"

definition byte_toString :: "8 word \<Rightarrow> string" where
  "byte_toString w =
     (let n = unat w
      in if n < 10 then [digit_char n]
         else if n < 100 then [digit_char (n div 10), digit_char (n mod 10)]
         else [digit_char (n div 100), digit_char (n div 10 mod 10), digit_char (n mod 10)])"

fun join_comma :: "string list \<Rightarrow> string" where
  "join_comma [] = []"
| "join_comma [x] = x"
| "join_comma (x # y # ys) = x @ '','' @ join_comma (y # ys)"

definition uint8_toString :: "bytes \<Rightarrow> string" where
  "uint8_toString bs = join_comma (map byte_toString bs)"

text \<open>\<open>valueString.split(',')\<close>: the pieces between the commas, at least one piece.\<close>

fun split_comma :: "string \<Rightarrow> string list" where
  "split_comma [] = [[]]"
| "split_comma (c # cs) =
     (if c = CHR '','' then [] # split_comma cs
      else (case split_comma cs of [] \<Rightarrow> [[c]] | p # ps \<Rightarrow> (c # p) # ps))"

definition localStorageSet :: "string \<Rightarrow> string \<Rightarrow> state \<Rightarrow> state" where
  "localStorageSet key v s = s\<lparr>localStorage := (localStorage s)(key \<mapsto> v)\<rparr>"

text \<open>
  \<open>!valueString\<close> holds for \<open>null\<close> (no entry) and for the empty string. The error is
  emitted and thrown.
\<close>

definition key_not_stored :: "string \<Rightarrow> js_error" where
  "key_not_stored key = Thrown WalletError (''Key '' @ key @ '' not stored'') None"

definition localStorageGetUint8 :: "deps \<Rightarrow> string \<Rightarrow> state \<Rightarrow> (js_error + bytes) \<times> state" where
  "localStorageGetUint8 D key s =
     (case localStorage s key of
        None \<Rightarrow> (Inl (key_not_stored key), emit (ErrorEvent (key_not_stored key)) s)
      | Some valueString \<Rightarrow>
          if valueString = []
          then (Inl (key_not_stored key), emit (ErrorEvent (key_not_stored key)) s)
          else (Inr (map (Number_uint8 D) (split_comma valueString)), s))"

subsection \<open>URLs\<close>

definition searchParams_delete :: "string \<Rightarrow> (string \<times> string) list \<Rightarrow> (string \<times> string) list" where
  "searchParams_delete name ps = filter (\<lambda>p. fst p \<noteq> name) ps"

definition searchParams_get :: "(string \<times> string) list \<Rightarrow> string \<Rightarrow> string option" where
  "searchParams_get ps name = map_of ps name"

text \<open>
  \<open>makeRedirectUrl\<close> returns \<open>url.toString()\<close>; \<open>redirectUrl\<close> is the URL object before
  that call.
\<close>

definition redirectUrl :: "state \<Rightarrow> url" where
  "redirectUrl s =
     (location s)\<lparr>searchParams :=
        searchParams_delete ''errorMessage''
          (searchParams_delete ''errorCode''
            (searchParams_delete ''data''
              (searchParams_delete ''nonce''
                (searchParams_delete ''phantom_encryption_public_key''
                  (searchParams (location s))))))\<rparr>"

definition makeRedirectUrl :: "deps \<Rightarrow> state \<Rightarrow> string" where
  "makeRedirectUrl D s = url_toString D (redirectUrl s)"

definition makeDeepLinkUrl :: "string \<Rightarrow> (string \<times> string) list \<Rightarrow> url" where
  "makeDeepLinkUrl path params =
     \<lparr>base = ''https://phantom.app/ul/v1/'' @ path, searchParams = params, fragment = []\<rparr>"

subsection \<open>Connecting over the deep link\<close>

text \<open>
  The request phase. It has no \<open>throw\<close> and no \<open>await\<close>, so it runs to its end inside
  the call; \<open>connect\<close> does not await its promise. A storage that refuses the write
  (quota) is outside the model.
\<close>

definition connectUsingDeepLink :: "deps \<Rightarrow> state \<Rightarrow> state" where
  "connectUsingDeepLink D s =
     (let dappDeepLinkKeypair = nacl_box_keyPair D (box_keyPair_calls s);
          s1 = s\<lparr>box_keyPair_calls := box_keyPair_calls s + 1\<rparr>;
          s2 = localStorageSet deepLinkPublicKeyStorage
                 (uint8_toString (fst dappDeepLinkKeypair)) s1;
          s3 = localStorageSet deepLinkSecretKeyStorage
                 (uint8_toString (snd dappDeepLinkKeypair)) s2;
          appUrl = makeRedirectUrl D s3;
          connectUrl = makeDeepLinkUrl ''connect''
            [(''app_url'', appUrl),
             (''dapp_encryption_public_key'', bs58_encode D (fst dappDeepLinkKeypair)),
             (''redirect_link'', appUrl),
             (''cluster'', ''devnet'')];
          s4 = s3\<lparr>alerts := alerts s3 @ [connectUrl]\<rparr>
      in s4\<lparr>navigations := navigations s4 @ [connectUrl]\<rparr>)"

definition unable_to_decrypt :: js_error where
  "unable_to_decrypt = Thrown WalletConnectionError ''Unable to decrypt connection params'' None"

text \<open>
  \<open>localStorage.setItem(key, session)\<close> stores the string of its argument: \<open>undefined\<close>
  when the parsed object has no \<open>session\<close>. In \<open>connect_data\<close> a field is \<open>None\<close> when the
  parsed object lacks it; values that are present but not strings are outside the model.
\<close>

definition String_of :: "string option \<Rightarrow> string" where
  "String_of v = (case v of None \<Rightarrow> ''undefined'' | Some x \<Rightarrow> x)"

text \<open>The completion phase, statement by statement.\<close>

definition handleConnectionDeepLinkParams ::
  "deps \<Rightarrow> string \<Rightarrow> string \<Rightarrow> string \<Rightarrow> state \<Rightarrow> (js_error + unit) \<times> state" where
  "handleConnectionDeepLinkParams D phantomEncryptionPublicKey nonce encryptedData s =
     (case localStorageGetUint8 D deepLinkSecretKeyStorage s of
        (Inl e, s1) \<Rightarrow> (Inl e, s1)
      | (Inr dappSecretKey, s1) \<Rightarrow>
     (case bs58_decode D phantomEncryptionPublicKey of
        Inl e \<Rightarrow> (Inl e, s1)
      | Inr phantomPublicKey \<Rightarrow>
     (case nacl_box_before D phantomPublicKey dappSecretKey of
        Inl e \<Rightarrow> (Inl e, s1)
      | Inr sharedSecret \<Rightarrow>
     (let s2 = localStorageSet deepLinkSharedSecretStorage (uint8_toString sharedSecret) s1
      in
     (case bs58_decode D encryptedData of
        Inl e \<Rightarrow> (Inl e, s2)
      | Inr box \<Rightarrow>
     (case bs58_decode D nonce of
        Inl e \<Rightarrow> (Inl e, s2)
      | Inr n \<Rightarrow>
     (case nacl_box_open_after D box n sharedSecret of
        Inl e \<Rightarrow> (Inl e, s2)
      | Inr None \<Rightarrow> (Inl unable_to_decrypt, emit (ErrorEvent unable_to_decrypt) s2)
      | Inr (Some decrypytedConnectData) \<Rightarrow>
     (case JSON_parse D decrypytedConnectData of
        Inl e \<Rightarrow> (Inl e, s2)
      | Inr parsedConnectData \<Rightarrow>
     (let s3 = s2\<lparr>localStorage :=
                   (localStorage s2)(deepLinkSessionStorage \<mapsto>
                      String_of (session parsedConnectData))\<rparr>
      in
     (case new_PublicKey_string D (public_key parsedConnectData) of
        Inl e \<Rightarrow> (Inl e, s3)
      | Inr walletPublicKey \<Rightarrow>
          (Inr (), emit (Connect walletPublicKey)
                     (s3\<lparr>priv_publicKey := Some walletPublicKey\<rparr>))))))))))))"

subsection \<open>connect\<close>

text \<open>
  The three response parameters, when all three are present and non-empty
  (\<open>phantomEncryptionPublicKey && nonce && data\<close>).
\<close>

definition responseParams :: "state \<Rightarrow> (string \<times> string \<times> string) option" where
  "responseParams s =
     (let urlParams = searchParams (location s)
      in case searchParams_get urlParams ''phantom_encryption_public_key'' of
           None \<Rightarrow> None
         | Some phantomEncryptionPublicKey \<Rightarrow>
        (case searchParams_get urlParams ''nonce'' of
           None \<Rightarrow> None
         | Some nonce \<Rightarrow>
        (case searchParams_get urlParams ''data'' of
           None \<Rightarrow> None
         | Some data \<Rightarrow>
             if phantomEncryptionPublicKey \<noteq> [] \<and> nonce \<noteq> [] \<and> data \<noteq> []
             then Some (phantomEncryptionPublicKey, nonce, data) else None)))"

text \<open>The branch of \<open>connect\<close> taken when the ready state is \<open>Loadable\<close>.\<close>

definition connect_deepLink :: "deps \<Rightarrow> state \<Rightarrow> (js_error + unit) \<times> state" where
  "connect_deepLink D s =
     (case responseParams s of
        Some (phantomEncryptionPublicKey, nonce, data) \<Rightarrow>
          handleConnectionDeepLinkParams D phantomEncryptionPublicKey nonce data s
      | None \<Rightarrow> (Inr (), connectUsingDeepLink D s))"

text \<open>
  The other branch: the injected extension object. With neither \<open>window.phantom.solana\<close>
  nor \<open>window.solana\<close>, reading \<open>wallet.isConnected\<close> throws a \<open>TypeError\<close>.
\<close>

definition connect_extension :: "deps \<Rightarrow> state \<Rightarrow> (js_error + unit) \<times> state" where
  "connect_extension D s =
     (case (case window_phantom_solana s of Some r \<Rightarrow> Some r | None \<Rightarrow> window_solana s) of
        None \<Rightarrow> (Inl (Thrown ForeignError ''Cannot read properties of undefined'' None), s)
      | Some r \<Rightarrow>
     (case (if isConnected (heap s r) then Inr (heap s r)
            else (case wallet_connect D (heap s r) of
                    Inl e \<Rightarrow> Inl (Thrown WalletConnectionError (message e) (Some e))
                  | Inr w \<Rightarrow> Inr (w\<lparr>listeners := listeners (heap s r)\<rparr>))) of
        Inl e \<Rightarrow> (Inl e, s)
      | Inr w \<Rightarrow>
     (let s1 = s\<lparr>heap := (heap s)(r := w)\<rparr>
      in
     (case wallet_publicKey w of
        None \<Rightarrow> (Inl (Thrown WalletAccountError [] None), s1)
      | Some keyBytes \<Rightarrow>
     (case new_PublicKey_bytes D keyBytes of
        Inl e \<Rightarrow> (Inl (Thrown WalletPublicKeyError (message e) (Some e)), s1)
      | Inr key \<Rightarrow>
          (let w1 = w\<lparr>listeners := listeners w @
                        [(''disconnect'', H_disconnected),
                         (''accountChanged'', H_accountChanged)]\<rparr>;
               s2 = s1\<lparr>heap := (heap s1)(r := w1), priv_wallet := Some r,
                        priv_publicKey := Some key\<rparr>
           in (Inr (), emit (Connect key) s2)))))))"

text \<open>
  The \<open>try\<close> block of \<open>connect\<close>. The guard reads \<open>this.connected\<close>, then
  \<open>this.connecting\<close>, then \<open>window\<close>. The \<open>console.log\<close> of the three parameters has no
  effect on the state and is left out.
\<close>

definition connect_try :: "deps \<Rightarrow> state \<Rightarrow> (js_error + unit) \<times> state" where
  "connect_try D s =
     (if connected s \<or> connecting s then (Inr (), s)
      else (case window s of
              Undeclared \<Rightarrow> (Inl (Thrown ForeignError ''window is not defined'' None), s)
            | Undefined \<Rightarrow> (Inr (), s)
            | Defined \<Rightarrow>
                if priv_readyState s \<noteq> Installed \<and> priv_readyState s \<noteq> Loadable
                then (Inl (Thrown WalletNotReadyError [] None), s)
                else (let s1 = s\<lparr>priv_connecting := True\<rparr>
                      in if priv_readyState s1 = Loadable
                         then connect_deepLink D s1
                         else connect_extension D s1)))"

text \<open>
  \<open>catch (error) { this.emit('error', error); throw error; }\<close>, the handler every public
  method wraps around its body.
\<close>

definition catch_emit :: "(js_error + 'a) \<times> state \<Rightarrow> (js_error + 'a) \<times> state" where
  "catch_emit rs =
     (case fst rs of Inl e \<Rightarrow> (Inl e, emit (ErrorEvent e) (snd rs)) | Inr v \<Rightarrow> rs)"

text \<open>\<open>connect\<close>: the \<open>try\<close> block, the \<open>catch\<close>, and the \<open>finally\<close> that runs on every exit.\<close>

definition connect :: "deps \<Rightarrow> state \<Rightarrow> (js_error + unit) \<times> state" where
  "connect D s =
     (let rs = catch_emit (connect_try D s)
      in (fst rs, (snd rs)\<lparr>priv_connecting := False\<rparr>))"

subsection \<open>disconnect\<close>

definition wallet_off :: "string \<Rightarrow> handler \<Rightarrow> PhantomWallet \<Rightarrow> PhantomWallet" where
  "wallet_off name h w = w\<lparr>listeners := filter (\<lambda>l. l \<noteq> (name, h)) (listeners w)\<rparr>"

definition disconnect :: "deps \<Rightarrow> state \<Rightarrow> (js_error + unit) \<times> state" where
  "disconnect D s =
     (case priv_wallet s of
        None \<Rightarrow> (Inr (), emit Disconnect s)
      | Some r \<Rightarrow>
          (let w1 = wallet_off ''accountChanged'' H_accountChanged
                      (wallet_off ''disconnect'' H_disconnected (heap s r));
               s1 = s\<lparr>heap := (heap s)(r := w1), priv_wallet := None, priv_publicKey := None\<rparr>;
               s2 = (case wallet_disconnect D w1 of
                       Inl e \<Rightarrow>
                         emit (ErrorEvent (Thrown WalletDisconnectionError (message e) (Some e))) s1
                     | Inr w2 \<Rightarrow> s1\<lparr>heap := (heap s1)(r := w2\<lparr>listeners := listeners w1\<rparr>)\<rparr>)
           in (Inr (), emit Disconnect s2)))"

subsection \<open>Sending and signing\<close>

definition wrap :: "error_class \<Rightarrow> js_error \<Rightarrow> js_error" where
  "wrap c e = Thrown c (message e) (Some e)"

definition signAndPrepareTransaction ::
  "deps \<Rightarrow> transaction \<Rightarrow> Connection \<Rightarrow> SendTransactionOptions \<Rightarrow> state \<Rightarrow>
     js_error + (transaction \<times> SendOptions)" where
  "signAndPrepareTransaction D tx connection options s =
     (case (if versioned tx
            then (if signers options \<noteq> [] then transaction_sign D tx (signers options)
                  else Inr tx)
            else (case prepareTransaction D (publicKey s) tx connection (sendOptions options) of
                    Inl e \<Rightarrow> Inl e
                  | Inr t \<Rightarrow>
                      if signers options \<noteq> []
                      then transaction_partialSign D t (signers options) else Inr t)) of
        Inl e \<Rightarrow>
          if instanceof_WalletError e then Inl e else Inl (wrap WalletSendTransactionError e)
      | Inr t \<Rightarrow> Inr (t, sendOptions options))"

definition sendTransactionUrl ::
  "deps \<Rightarrow> bytes \<Rightarrow> bytes \<Rightarrow> bytes \<Rightarrow> state \<Rightarrow> url" where
  "sendTransactionUrl D dappPublicKey nonce encryptedPayload s =
     makeDeepLinkUrl ''signAndSendTransaction''
       [(''dapp_encryption_public_key'', bs58_encode D dappPublicKey),
        (''nonce'', bs58_encode D nonce),
        (''redirect_link'', makeRedirectUrl D s),
        (''payload'', bs58_encode D encryptedPayload)]"

definition sendTransactionUsingDeepLink ::
  "deps \<Rightarrow> transaction \<Rightarrow> Connection \<Rightarrow> SendTransactionOptions \<Rightarrow> state \<Rightarrow>
     (js_error + string) \<times> state" where
  "sendTransactionUsingDeepLink D tx connection options s =
     (case signAndPrepareTransaction D tx connection options s of
        Inl e \<Rightarrow> (Inl e, s)
      | Inr (preparedTransaction, sendOpts) \<Rightarrow>
     (case localStorageGetUint8 D deepLinkPublicKeyStorage s of
        (Inl e, s1) \<Rightarrow> (Inl e, s1)
      | (Inr dappPublicKey, s1) \<Rightarrow>
     (case localStorageGetUint8 D deepLinkSharedSecretStorage s1 of
        (Inl e, s2) \<Rightarrow> (Inl e, s2)
      | (Inr sharedSecret, s2) \<Rightarrow>
     (let sess = localStorage s2 deepLinkSessionStorage;
          nonce = nacl_randomBytes D (randomBytes_calls s2) 24;
          s3 = s2\<lparr>randomBytes_calls := randomBytes_calls s2 + 1\<rparr>
      in
     (case transaction_serialize D preparedTransaction of
        Inl e \<Rightarrow> (Inl e, s3)
      | Inr serializedTransaction \<Rightarrow>
     (let pl = \<lparr>payload_transaction = bs58_encode D serializedTransaction,
                payload_sendOptions = sendOpts, payload_session = sess\<rparr>
      in
     (case nacl_box_after D (JSON_stringify D pl) nonce sharedSecret of
        Inl e \<Rightarrow> (Inl e, s3)
      | Inr encryptedPayload \<Rightarrow>
          (Inr ''TransactionSignature'',
           s3\<lparr>navigations := navigations s3 @
                 [sendTransactionUrl D dappPublicKey nonce encryptedPayload s3]\<rparr>))))))))"

text \<open>\<open>a || b\<close> on optional strings: \<open>undefined\<close> and the empty string are falsy.\<close>

definition logical_or :: "string option \<Rightarrow> string option \<Rightarrow> string option" where
  "logical_or a b = (case a of None \<Rightarrow> b | Some x \<Rightarrow> if x = [] then b else Some x)"

text \<open>
  The branch of \<open>sendTransaction\<close> for an attached extension object: the inner \<open>try\<close>
  with its \<open>catch\<close>.
\<close>

definition sendTransaction_extension ::
  "deps \<Rightarrow> transaction \<Rightarrow> Connection \<Rightarrow> SendTransactionOptions \<Rightarrow> state \<Rightarrow> js_error + string" where
  "sendTransaction_extension D tx connection options s =
     (case priv_wallet s of
        None \<Rightarrow> Inl (Thrown WalletNotConnectedError [] None)
      | Some r \<Rightarrow>
     (case (case signAndPrepareTransaction D tx connection options s of
              Inl e \<Rightarrow> Inl e
            | Inr (preparedTransaction, sendOpts) \<Rightarrow>
                wallet_signAndSendTransaction D (heap s r) preparedTransaction
                  (sendOpts\<lparr>preflightCommitment :=
                     logical_or (preflightCommitment sendOpts) (commitment connection)\<rparr>)) of
        Inl e \<Rightarrow>
          if instanceof_WalletError e then Inl e else Inl (wrap WalletSendTransactionError e)
      | Inr signature \<Rightarrow> Inr signature))"

text \<open>
  In the \<open>Loadable\<close> branch the promise of \<open>sendTransactionUsingDeepLink\<close> is returned
  without \<open>await\<close>: its rejection is the rejection of \<open>sendTransaction\<close> and does not pass
  through the \<open>catch\<close> of \<open>sendTransaction\<close>.
\<close>

definition sendTransaction ::
  "deps \<Rightarrow> transaction \<Rightarrow> Connection \<Rightarrow> SendTransactionOptions \<Rightarrow> state \<Rightarrow>
     (js_error + string) \<times> state" where
  "sendTransaction D tx connection options s =
     (if readyState s = Loadable
      then sendTransactionUsingDeepLink D tx connection options s
      else catch_emit (sendTransaction_extension D tx connection options s, s))"

definition signTransaction ::
  "deps \<Rightarrow> transaction \<Rightarrow> state \<Rightarrow> (js_error + transaction) \<times> state" where
  "signTransaction D tx s =
     catch_emit
       (case priv_wallet s of
          None \<Rightarrow> Inl (Thrown WalletNotConnectedError [] None)
        | Some r \<Rightarrow>
            (case wallet_signTransaction D (heap s r) tx of
               Inl e \<Rightarrow> Inl (wrap WalletSignTransactionError e)
             | Inr None \<Rightarrow> Inr tx
             | Inr (Some res) \<Rightarrow> Inr res), s)"

definition signAllTransactions ::
  "deps \<Rightarrow> transaction list \<Rightarrow> state \<Rightarrow> (js_error + transaction list) \<times> state" where
  "signAllTransactions D txs s =
     catch_emit
       (case priv_wallet s of
          None \<Rightarrow> Inl (Thrown WalletNotConnectedError [] None)
        | Some r \<Rightarrow>
            (case wallet_signAllTransactions D (heap s r) txs of
               Inl e \<Rightarrow> Inl (wrap WalletSignTransactionError e)
             | Inr None \<Rightarrow> Inr txs
             | Inr (Some res) \<Rightarrow> Inr res), s)"

definition signMessage :: "deps \<Rightarrow> bytes \<Rightarrow> state \<Rightarrow> (js_error + bytes) \<times> state" where
  "signMessage D msg s =
     catch_emit
       (case priv_wallet s of
          None \<Rightarrow> Inl (Thrown WalletNotConnectedError [] None)
        | Some r \<Rightarrow>
            (case wallet_signMessage D (heap s r) msg of
               Inl e \<Rightarrow> Inl (wrap WalletSignMessageError e)
             | Inr signature \<Rightarrow> Inr signature), s)"

subsection \<open>The handlers subscribed to the extension object\<close>

definition priv_disconnected :: "state \<Rightarrow> state" where
  "priv_disconnected s =
     (case priv_wallet s of
        None \<Rightarrow> s
      | Some r \<Rightarrow>
          (let w1 = wallet_off ''accountChanged'' H_accountChanged
                      (wallet_off ''disconnect'' H_disconnected (heap s r));
               s1 = s\<lparr>heap := (heap s)(r := w1), priv_wallet := None, priv_publicKey := None\<rparr>
           in emit Disconnect (emit (ErrorEvent (Thrown WalletDisconnectedError [] None)) s1)))"

definition priv_accountChanged :: "deps \<Rightarrow> bytes \<Rightarrow> state \<Rightarrow> state" where
  "priv_accountChanged D newKeyBytes s =
     (case priv_publicKey s of
        None \<Rightarrow> s
      | Some pk \<Rightarrow>
          (case new_PublicKey_bytes D newKeyBytes of
             Inl e \<Rightarrow> emit (ErrorEvent (wrap WalletPublicKeyError e)) s
           | Inr newPublicKey \<Rightarrow>
               if pk = newPublicKey then s
               else emit (Connect newPublicKey) (s\<lparr>priv_publicKey := Some newPublicKey\<rparr>)))"

subsection \<open>The states an adapter goes through\<close>

text \<open>
  What the page does on its own leaves the adapter's fields, its event log and the polling
  flag as they are; everything else may change.
\<close>

definition same_adapter :: "state \<Rightarrow> state \<Rightarrow> bool" where
  "same_adapter s t =
     (priv_connecting t = priv_connecting s \<and> priv_wallet t = priv_wallet s \<and>
      priv_publicKey t = priv_publicKey s \<and> priv_readyState t = priv_readyState s \<and>
      emitted t = emitted s \<and> polling_started t = polling_started s)"

text \<open>
  The states reachable after \<open>new PhantomWalletAdapter()\<close> in a page with \<open>window\<close> and
  \<open>document\<close>: by the public methods, by the two handlers, by the detection callback once
  polling has been started, and by changes of the page.
\<close>

inductive reachable :: "deps \<Rightarrow> state \<Rightarrow> bool" for D :: deps where
  r_new: "window page = Defined \<Longrightarrow> document page = Defined \<Longrightarrow> reachable D (constructor page)"
| r_connect: "reachable D s \<Longrightarrow> reachable D (snd (connect D s))"
| r_disconnect: "reachable D s \<Longrightarrow> reachable D (snd (disconnect D s))"
| r_sendTransaction:
    "reachable D s \<Longrightarrow> reachable D (snd (sendTransaction D tx connection options s))"
| r_signTransaction: "reachable D s \<Longrightarrow> reachable D (snd (signTransaction D tx s))"
| r_signAllTransactions: "reachable D s \<Longrightarrow> reachable D (snd (signAllTransactions D txs s))"
| r_signMessage: "reachable D s \<Longrightarrow> reachable D (snd (signMessage D msg s))"
| r_disconnected: "reachable D s \<Longrightarrow> reachable D (priv_disconnected s)"
| r_accountChanged: "reachable D s \<Longrightarrow> reachable D (priv_accountChanged D k s)"
| r_detect: "reachable D s \<Longrightarrow> polling_started s \<Longrightarrow> reachable D (snd (detect s))"
| r_page: "reachable D s \<Longrightarrow> same_adapter s t \<Longrightarrow> reachable D t"

subsection \<open>The invariant of the reachable states\<close>

definition adapter_inv :: "state \<Rightarrow> bool" where
  "adapter_inv s =
     (priv_readyState s = Loadable \<and> \<not> polling_started s \<and> priv_wallet s = None)"

subsection \<open>A concrete page and concrete collaborators\<close>

text \<open>
  Small stand-ins for the libraries, in the manner of a unit test's fakes, on which the
  model runs to a value: the dapp's key pair is \<open>([1], [2])\<close>, the wallet's encryption key
  decodes from \<open>pkW\<close>, only the box \<open>[5]\<close> (encoded \<open>data\<close>) opens, and the extension
  rejects every request.
\<close>

definition stubWallet :: PhantomWallet where
  "stubWallet =
     \<lparr>isPhantom = True, wallet_publicKey = Some [4], isConnected = True,
      listeners = [(''disconnect'', H_disconnected), (''accountChanged'', H_accountChanged)]\<rparr>"

definition denied :: js_error where
  "denied = Thrown WalletError ''denied'' None"

definition boom :: js_error where
  "boom = Thrown ForeignError ''boom'' None"

definition stubDeps :: deps where
  "stubDeps =
     \<lparr>bs58_encode = (\<lambda>b. if b = [1] then ''pkD'' else ''enc''),
      bs58_decode = (\<lambda>x. if x = ''pkD'' then Inr [1] else if x = ''pkW'' then Inr [7]
                          else if x = ''n1'' then Inr [9] else if x = ''data'' then Inr [5]
                          else Inr [0]),
      nacl_box_keyPair = (\<lambda>i. ([1], [2])),
      nacl_randomBytes = (\<lambda>i len. [3]),
      nacl_box_before = (\<lambda>pk sk. Inr (pk @ sk)),
      nacl_box_after = (\<lambda>m n k. Inr m),
      nacl_box_open_after = (\<lambda>box n k. if box = [5] then Inr (Some [6]) else Inr None),
      JSON_parse = (\<lambda>b. Inr \<lparr>public_key = Some ''addr'', session = Some ''tok1''\<rparr>),
      JSON_stringify = (\<lambda>p. [8]),
      new_PublicKey_string = (\<lambda>x. case x of None \<Rightarrow> Inl boom | Some a \<Rightarrow> Inr [4]),
      new_PublicKey_bytes = (\<lambda>b. Inr b),
      Number_uint8 = (\<lambda>x. if x = ''1'' then 1 else if x = ''7'' then 7 else 2),
      url_toString = (\<lambda>u. base u),
      prepareTransaction =
        (\<lambda>pk tx c opts. case pk of
             None \<Rightarrow> Inl (Thrown WalletNotConnectedError [] None)
           | Some k \<Rightarrow> Inr tx),
      transaction_sign = (\<lambda>tx ks. Inr tx),
      transaction_partialSign = (\<lambda>tx ks. Inr tx),
      transaction_serialize = (\<lambda>tx. Inr (content tx)),
      wallet_connect = (\<lambda>w. Inl boom),
      wallet_disconnect = (\<lambda>w. Inl boom),
      wallet_signTransaction = (\<lambda>w tx. Inl denied),
      wallet_signAllTransactions = (\<lambda>w txs. Inl denied),
      wallet_signMessage = (\<lambda>w m. Inl denied),
      wallet_signAndSendTransaction = (\<lambda>w tx opts. Inl denied)\<rparr>"

text \<open>
  A page of the dapp with the given query parameters and storage entries, before any
  adapter is constructed in it.
\<close>

definition stubPage :: "(string \<times> string) list \<Rightarrow> (string \<times> string) list \<Rightarrow> state" where
  "stubPage params stored =
     \<lparr>priv_connecting = False, priv_wallet = None, priv_publicKey = None,
      priv_readyState = NotDetected, emitted = [], polling_started = False,
      window = Defined, document = Defined,
      location = \<lparr>base = ''https://dapp.example/'', searchParams = params, fragment = []\<rparr>,
      localStorage = map_of stored,
      heap = (\<lambda>r. stubWallet), window_phantom_solana = None, window_solana = None,
      navigations = [], alerts = [], box_keyPair_calls = 0, randomBytes_calls = 0\<rparr>"

definition tx0 :: transaction where
  "tx0 = \<lparr>versioned = True, content = [10]\<rparr>"

definition tx1 :: transaction where
  "tx1 = \<lparr>versioned = True, content = [11, 12]\<rparr>"

definition conn0 :: Connection where
  "conn0 = \<lparr>commitment = None\<rparr>"

definition opts0 :: SendTransactionOptions where
  "opts0 = \<lparr>signers = [], sendOptions = \<lparr>preflightCommitment = None, otherOptions = []\<rparr>\<rparr>"

text \<open>
  The same collaborators with the length checks of tweetnacl on \<open>nacl.box.after\<close>: a key
  that is not 32 bytes long, then a nonce that is not 24 bytes long, is refused with a plain
  \<open>Error\<close>.
\<close>

definition bad_key_size :: js_error where
  "bad_key_size = Thrown ForeignError ''bad key size'' None"

definition strictDeps :: deps where
  "strictDeps =
     stubDeps\<lparr>nacl_box_after :=
       (\<lambda>m n k. if length k \<noteq> 32 then Inl bad_key_size
                 else if length n \<noteq> 24 then Inl (Thrown ForeignError ''bad nonce size'' None)
                 else Inr m)\<rparr>"

text \<open>
  Three freshly constructed adapters: one whose storage holds what a completed handshake
  leaves except the session token; one on the page the wallet application redirects back
  to after approval, with the given \<open>data\<close> parameter; one on the page it redirects
  back to after the user has rejected the request.
\<close>

definition dispatchState :: state where
  "dispatchState =
     constructor (stubPage []
       [(deepLinkPublicKeyStorage, ''1''), (deepLinkSharedSecretStorage, ''7,2'')])"

definition returnState :: "string \<Rightarrow> state" where
  "returnState d =
     constructor (stubPage
       [(''phantom_encryption_public_key'', ''pkW''), (''nonce'', ''n1''), (''data'', d)]
       [(deepLinkPublicKeyStorage, ''1''), (deepLinkSecretKeyStorage, ''2'')])"

definition rejectedState :: state where
  "rejectedState =
     constructor (stubPage
       [(''errorCode'', ''4001''), (''errorMessage'', ''User rejected the request.'')]
       [(deepLinkPublicKeyStorage, ''1''), (deepLinkSecretKeyStorage, ''2'')])"

section \<open>Properties\<close>

subsection \<open>What each step leaves unchanged\<close>

lemma emit_fields [simp]:
  "priv_readyState (emit ev s) = priv_readyState s"
  "polling_started (emit ev s) = polling_started s"
  "priv_wallet (emit ev s) = priv_wallet s"
  "priv_publicKey (emit ev s) = priv_publicKey s"
  "priv_connecting (emit ev s) = priv_connecting s"
  "localStorage (emit ev s) = localStorage s"
  "navigations (emit ev s) = navigations s"
  "heap (emit ev s) = heap s"
  "location (emit ev s) = location s"
  "box_keyPair_calls (emit ev s) = box_keyPair_calls s"
  "randomBytes_calls (emit ev s) = randomBytes_calls s"
  "emitted (emit ev s) = emitted s @ [ev]"
  by (simp_all add: emit_def)

lemma localStorageSet_fields [simp]:
  "priv_readyState (localStorageSet k v s) = priv_readyState s"
  "polling_started (localStorageSet k v s) = polling_started s"
  "priv_wallet (localStorageSet k v s) = priv_wallet s"
  "priv_publicKey (localStorageSet k v s) = priv_publicKey s"
  "priv_connecting (localStorageSet k v s) = priv_connecting s"
  "navigations (localStorageSet k v s) = navigations s"
  "heap (localStorageSet k v s) = heap s"
  "location (localStorageSet k v s) = location s"
  "emitted (localStorageSet k v s) = emitted s"
  "box_keyPair_calls (localStorageSet k v s) = box_keyPair_calls s"
  "randomBytes_calls (localStorageSet k v s) = randomBytes_calls s"
  "localStorage (localStorageSet k v s) = (localStorage s)(k \<mapsto> v)"
  by (simp_all add: localStorageSet_def)

lemma localStorageGetUint8_fields:
  "priv_readyState (snd (localStorageGetUint8 D k s)) = priv_readyState s"
  "polling_started (snd (localStorageGetUint8 D k s)) = polling_started s"
  "priv_wallet (snd (localStorageGetUint8 D k s)) = priv_wallet s"
  "priv_publicKey (snd (localStorageGetUint8 D k s)) = priv_publicKey s"
  "priv_connecting (snd (localStorageGetUint8 D k s)) = priv_connecting s"
  "localStorage (snd (localStorageGetUint8 D k s)) = localStorage s"
  "navigations (snd (localStorageGetUint8 D k s)) = navigations s"
  "heap (snd (localStorageGetUint8 D k s)) = heap s"
  "location (snd (localStorageGetUint8 D k s)) = location s"
  "box_keyPair_calls (snd (localStorageGetUint8 D k s)) = box_keyPair_calls s"
  "randomBytes_calls (snd (localStorageGetUint8 D k s)) = randomBytes_calls s"
  by (simp_all add: localStorageGetUint8_def split: option.splits)

lemma handle_inv:
  "adapter_inv s \<Longrightarrow> adapter_inv (snd (handleConnectionDeepLinkParams D k n d s))"
  unfolding handleConnectionDeepLinkParams_def adapter_inv_def
  by (cases "localStorageGetUint8 D deepLinkSecretKeyStorage s")
     (use localStorageGetUint8_fields[of D deepLinkSecretKeyStorage s] in
       \<open>simp add: Let_def split: sum.splits option.splits\<close>)


lemma connectUsingDeepLink_fields:
  "priv_readyState (connectUsingDeepLink D s) = priv_readyState s"
  "polling_started (connectUsingDeepLink D s) = polling_started s"
  "priv_wallet (connectUsingDeepLink D s) = priv_wallet s"
  "priv_publicKey (connectUsingDeepLink D s) = priv_publicKey s"
  "priv_connecting (connectUsingDeepLink D s) = priv_connecting s"
  "emitted (connectUsingDeepLink D s) = emitted s"
  "heap (connectUsingDeepLink D s) = heap s"
  by (simp_all add: connectUsingDeepLink_def Let_def)

lemma connect_inv: "adapter_inv s \<Longrightarrow> adapter_inv (snd (connect D s))"
proof -
  assume inv: "adapter_inv s"
  have a: "adapter_inv (s\<lparr>priv_connecting := True\<rparr>)"
    using inv by (simp add: adapter_inv_def)
  have "adapter_inv (snd (connect_deepLink D (s\<lparr>priv_connecting := True\<rparr>)))"
    using handle_inv[OF a] a
    by (simp add: connect_deepLink_def adapter_inv_def connectUsingDeepLink_fields
             split: option.splits prod.splits)
  then have "adapter_inv (snd (connect_try D s))"
    using inv by (simp add: connect_try_def adapter_inv_def split: js_global.splits)
  then show ?thesis
    by (simp add: connect_def catch_emit_def adapter_inv_def Let_def split: sum.splits)
qed

lemma disconnect_inv: "adapter_inv s \<Longrightarrow> adapter_inv (snd (disconnect D s))"
  by (simp add: disconnect_def adapter_inv_def)

lemma sendTransactionUsingDeepLink_inv:
  "adapter_inv s \<Longrightarrow> adapter_inv (snd (sendTransactionUsingDeepLink D tx c opts s))"
  unfolding sendTransactionUsingDeepLink_def adapter_inv_def
  apply (cases "localStorageGetUint8 D deepLinkPublicKeyStorage s")
  subgoal for r1 s1
    apply (cases "localStorageGetUint8 D deepLinkSharedSecretStorage s1")
    subgoal for r2 s2
      using localStorageGetUint8_fields[of D deepLinkPublicKeyStorage s]
            localStorageGetUint8_fields[of D deepLinkSharedSecretStorage s1]
      by (simp add: Let_def split: sum.splits prod.splits)
    done
  done

lemma sendTransaction_inv:
  "adapter_inv s \<Longrightarrow> adapter_inv (snd (sendTransaction D tx c opts s))"
  using sendTransactionUsingDeepLink_inv[of s D tx c opts]
  by (simp add: sendTransaction_def readyState_def adapter_inv_def)

lemma sign_inv:
  "adapter_inv s \<Longrightarrow> adapter_inv (snd (signTransaction D tx s))"
  "adapter_inv s \<Longrightarrow> adapter_inv (snd (signAllTransactions D txs s))"
  "adapter_inv s \<Longrightarrow> adapter_inv (snd (signMessage D msg s))"
  by (simp_all add: signTransaction_def signAllTransactions_def signMessage_def
        catch_emit_def adapter_inv_def)

lemma handlers_inv:
  "adapter_inv s \<Longrightarrow> adapter_inv (priv_disconnected s)"
  "adapter_inv s \<Longrightarrow> adapter_inv (priv_accountChanged D k s)"
  by (simp_all add: priv_disconnected_def priv_accountChanged_def adapter_inv_def
        split: option.splits sum.splits)

lemma constructor_inv:
  "window page = Defined \<Longrightarrow> document page = Defined \<Longrightarrow> adapter_inv (constructor page)"
  by (simp add: constructor_def adapter_inv_def useDeepLink_def Let_def)

lemma reachable_inv: "reachable D s \<Longrightarrow> adapter_inv s"
proof (induction rule: reachable.induct)
  case (r_new page)
  then show ?case by (rule constructor_inv)
next
  case (r_detect s)
  then show ?case by (simp add: adapter_inv_def)
next
  case (r_page s t)
  then show ?case by (simp add: adapter_inv_def same_adapter_def)
qed (simp_all add: connect_inv disconnect_inv sendTransaction_inv sign_inv handlers_inv)

subsection \<open>The ready state after construction\<close>

text \<open>
  Claim C9. After \<open>new PhantomWalletAdapter()\<close> in a page in which \<open>window\<close> and
  \<open>document\<close> are defined, the ready state is \<open>Loadable\<close> and stays so in every state the
  adapter reaches: it never becomes \<open>Installed\<close>, the detection polling is never started
  (the constructor's flag \<open>useDeepLink\<close> is the constant true), no extension object is ever
  attached, and \<open>connect\<close> never enters its extension branch: past its guards it always
  runs the deep-link branch.
\<close>

theorem deep_link_always_selected:
  assumes "reachable D s"
  shows "readyState s = Loadable \<and> readyState s \<noteq> Installed \<and> \<not> polling_started s \<and>
         priv_wallet s = None \<and>
         connect_try D s =
           (if connected s \<or> connecting s then (Inr (), s)
            else (case window s of
                    Undeclared \<Rightarrow> (Inl (Thrown ForeignError ''window is not defined'' None), s)
                  | Undefined \<Rightarrow> (Inr (), s)
                  | Defined \<Rightarrow> connect_deepLink D (s\<lparr>priv_connecting := True\<rparr>)))"
  using reachable_inv[OF assms]
  by (simp add: adapter_inv_def readyState_def connect_try_def split: js_global.splits)

text \<open>The same at a concrete page, after one \<open>connect\<close>.\<close>

theorem deep_link_always_selected_witness:
  "readyState (snd (connect stubDeps (constructor (stubPage [] [])))) = Loadable \<and>
   priv_wallet (snd (connect stubDeps (constructor (stubPage [] [])))) = None \<and>
   \<not> polling_started (snd (connect stubDeps (constructor (stubPage [] []))))"
proof -
  have "reachable stubDeps (constructor (stubPage [] []))"
    by (rule r_new) (simp_all add: stubPage_def)
  then have "reachable stubDeps (snd (connect stubDeps (constructor (stubPage [] []))))"
    by (rule r_connect)
  from deep_link_always_selected[OF this] show ?thesis by simp
qed

subsection \<open>The request phase of the deep-link connection\<close>

lemma redirectUrl_searchParams:
  "searchParams (redirectUrl s) =
     filter (\<lambda>p. fst p \<notin> {''phantom_encryption_public_key'', ''nonce'', ''data'',
                            ''errorCode'', ''errorMessage''})
       (searchParams (location s))"
  by (auto simp add: redirectUrl_def searchParams_delete_def intro: filter_cong)

lemma redirectUrl_location: "location t = location s \<Longrightarrow> redirectUrl t = redirectUrl s"
  by (simp add: redirectUrl_def)

lemma connect_request:
  assumes "priv_readyState s = Loadable" "\<not> connected s" "\<not> connecting s"
    and "window s = Defined" "responseParams s = None"
  shows "connect D s = (Inr (), (connectUsingDeepLink D (s\<lparr>priv_connecting := True\<rparr>))\<lparr>priv_connecting := False\<rparr>)"
proof -
  have "responseParams (s\<lparr>priv_connecting := True\<rparr>) = None"
    using assms(5) by (simp add: responseParams_def)
  then have "connect_try D s = (Inr (), connectUsingDeepLink D (s\<lparr>priv_connecting := True\<rparr>))"
    using assms by (simp add: connect_try_def connect_deepLink_def)
  then show ?thesis
    by (simp add: connect_def catch_emit_def)
qed

lemma stub_new:
  "priv_readyState (constructor (stubPage ps st)) = Loadable"
  "priv_wallet (constructor (stubPage ps st)) = None"
  "priv_publicKey (constructor (stubPage ps st)) = None"
  "priv_connecting (constructor (stubPage ps st)) = False"
  "emitted (constructor (stubPage ps st)) = [ReadyStateChange Loadable]"
  "window (constructor (stubPage ps st)) = Defined"
  "searchParams (location (constructor (stubPage ps st))) = ps"
  "base (location (constructor (stubPage ps st))) = ''https://dapp.example/''"
  "localStorage (constructor (stubPage ps st)) = map_of st"
  "navigations (constructor (stubPage ps st)) = []"
  "box_keyPair_calls (constructor (stubPage ps st)) = 0"
  "randomBytes_calls (constructor (stubPage ps st)) = 0"
  by (simp_all add: constructor_def stubPage_def useDeepLink_def Let_def emit_def)

text \<open>
  Claim C7. When \<open>connect\<close> runs on the deep-link path and the current URL does not carry
  the three response parameters, exactly one key pair is drawn from \<open>nacl.box.keyPair\<close>,
  its public and its secret key are written to storage under their two names, and the
  browser is sent to the connect URL of the wallet application, whose
  \<open>dapp_encryption_public_key\<close> decodes (base 58) to the public key just generated and
  whose \<open>app_url\<close> and \<open>redirect_link\<close> are both the current URL with the five protocol
  parameters \<open>phantom_encryption_public_key\<close>, \<open>nonce\<close>, \<open>data\<close>, \<open>errorCode\<close> and
  \<open>errorMessage\<close> removed and everything else kept. That bs58 decodes what it encoded is
  a property of the library and a hypothesis here.
\<close>

theorem connect_request_phase:
  assumes "priv_readyState s = Loadable" "\<not> connected s" "\<not> connecting s"
    and "window s = Defined" "responseParams s = None"
    and "nacl_box_keyPair D (box_keyPair_calls s) = (pk, sk)"
    and "bs58_decode D (bs58_encode D pk) = Inr pk"
  shows "fst (connect D s) = Inr () \<and>
         box_keyPair_calls (snd (connect D s)) = box_keyPair_calls s + 1 \<and>
         localStorage (snd (connect D s)) deepLinkPublicKeyStorage = Some (uint8_toString pk) \<and>
         localStorage (snd (connect D s)) deepLinkSecretKeyStorage = Some (uint8_toString sk) \<and>
         (\<exists>u v. navigations (snd (connect D s)) = navigations s @ [u] \<and>
            base u = ''https://phantom.app/ul/v1/connect'' \<and>
            searchParams_get (searchParams u) ''dapp_encryption_public_key'' = Some v \<and>
            bs58_decode D v = Inr pk \<and>
            searchParams_get (searchParams u) ''app_url'' = Some (url_toString D (redirectUrl s)) \<and>
            searchParams_get (searchParams u) ''redirect_link'' =
              Some (url_toString D (redirectUrl s))) \<and>
         base (redirectUrl s) = base (location s) \<and>
         fragment (redirectUrl s) = fragment (location s) \<and>
         searchParams (redirectUrl s) =
           filter (\<lambda>p. fst p \<notin> {''phantom_encryption_public_key'', ''nonce'', ''data'',
                                  ''errorCode'', ''errorMessage''})
             (searchParams (location s))"
proof -
  have r: "redirectUrl (localStorageSet k2 v2 (localStorageSet k1 v1
             (s\<lparr>priv_connecting := True, box_keyPair_calls := n\<rparr>))) = redirectUrl s"
    for k1 v1 k2 v2 n
    by (rule redirectUrl_location) simp
  have neq: "deepLinkPublicKeyStorage \<noteq> deepLinkSecretKeyStorage"
    by (simp add: deepLinkPublicKeyStorage_def deepLinkSecretKeyStorage_def)
  show ?thesis
    unfolding connect_request[OF assms(1-5)] redirectUrl_searchParams
    using assms(6,7) neq
    by (simp add: connectUsingDeepLink_def Let_def makeRedirectUrl_def makeDeepLinkUrl_def r
          searchParams_get_def redirectUrl_def)
qed

text \<open>The request phase on a fresh page with the concrete collaborators.\<close>

theorem connect_request_phase_witness:
  "fst (connect stubDeps (constructor (stubPage [] []))) = Inr () \<and>
   box_keyPair_calls (snd (connect stubDeps (constructor (stubPage [] [])))) = 1 \<and>
   localStorage (snd (connect stubDeps (constructor (stubPage [] []))))
     deepLinkPublicKeyStorage = Some ''1'' \<and>
   localStorage (snd (connect stubDeps (constructor (stubPage [] []))))
     deepLinkSecretKeyStorage = Some ''2''"
  using connect_request_phase[of "constructor (stubPage [] [])" stubDeps "[1]" "[2]"]
  by (simp add: stub_new connected_def connecting_def responseParams_def searchParams_get_def
        stubDeps_def uint8_toString_def byte_toString_def digit_char_def)

subsection \<open>disconnect\<close>

text \<open>
  What \<open>disconnect\<close> does in any state. It never throws. With no extension object
  attached it only emits the disconnect event. With one attached it removes its two
  handlers from the object, clears \<open>_wallet\<close> and \<open>_publicKey\<close>, and calls the object's
  own \<open>disconnect\<close>; when that call fails, the failure is emitted as a
  \<open>WalletDisconnectionError\<close> carrying the original message and cause, and the disconnect
  event is emitted all the same. A second call only adds one more disconnect event.
\<close>

lemma disconnect_effects:
  "fst (disconnect D s) = Inr () \<and>
   (priv_wallet s = None \<longrightarrow> snd (disconnect D s) = emit Disconnect s) \<and>
   (\<forall>r. priv_wallet s = Some r \<longrightarrow>
      priv_wallet (snd (disconnect D s)) = None \<and>
      priv_publicKey (snd (disconnect D s)) = None \<and>
      (''disconnect'', H_disconnected) \<notin> set (listeners (heap (snd (disconnect D s)) r)) \<and>
      (''accountChanged'', H_accountChanged) \<notin> set (listeners (heap (snd (disconnect D s)) r)) \<and>
      emitted (snd (disconnect D s)) =
        emitted s @
        (case wallet_disconnect D
                (wallet_off ''accountChanged'' H_accountChanged
                   (wallet_off ''disconnect'' H_disconnected (heap s r))) of
           Inl e \<Rightarrow> [ErrorEvent (Thrown WalletDisconnectionError (message e) (Some e))]
         | Inr w \<Rightarrow> []) @ [Disconnect]) \<and>
   snd (disconnect D (snd (disconnect D s))) = emit Disconnect (snd (disconnect D s))"
proof -
  have none: "disconnect D t = (Inr (), emit Disconnect t)" if "priv_wallet t = None" for t
    using that by (simp add: disconnect_def)
  have ok: "fst (disconnect D s) = Inr ()"
    by (simp add: disconnect_def Let_def split: option.splits)
  have cleared: "priv_wallet (snd (disconnect D s)) = None"
    by (simp add: disconnect_def Let_def split: option.splits sum.splits)
  have some: "priv_publicKey (snd (disconnect D s)) = None \<and>
      (''disconnect'', H_disconnected) \<notin> set (listeners (heap (snd (disconnect D s)) r)) \<and>
      (''accountChanged'', H_accountChanged) \<notin> set (listeners (heap (snd (disconnect D s)) r)) \<and>
      emitted (snd (disconnect D s)) =
        emitted s @
        (case wallet_disconnect D
                (wallet_off ''accountChanged'' H_accountChanged
                   (wallet_off ''disconnect'' H_disconnected (heap s r))) of
           Inl e \<Rightarrow> [ErrorEvent (Thrown WalletDisconnectionError (message e) (Some e))]
         | Inr w \<Rightarrow> []) @ [Disconnect]"
    if "priv_wallet s = Some r" for r
    using that by (simp add: disconnect_def Let_def wallet_off_def split: sum.splits)
  show ?thesis
    using ok cleared some none[OF cleared] none[of s] by simp
qed

subsection \<open>Sending a transaction over the deep link\<close>

lemma localStorageGetUint8_missing:
  "localStorage s k = None \<or> localStorage s k = Some [] \<Longrightarrow>
   localStorageGetUint8 D k s = (Inl (key_not_stored k), emit (ErrorEvent (key_not_stored k)) s)"
  by (auto simp add: localStorageGetUint8_def)

lemma localStorageGetUint8_Inr:
  "fst (localStorageGetUint8 D k s) = Inr v \<Longrightarrow> localStorageGetUint8 D k s = (Inr v, s)"
  by (auto simp add: localStorageGetUint8_def split: option.splits if_splits)

lemma localStorageGetUint8_cases:
  "localStorageGetUint8 D k s = (Inl (key_not_stored k), emit (ErrorEvent (key_not_stored k)) s) \<or>
   (\<exists>v. localStorageGetUint8 D k s = (Inr v, s))"
  by (auto simp add: localStorageGetUint8_def split: option.splits)

lemma makeRedirectUrl_location:
  "location t = location s \<Longrightarrow> makeRedirectUrl D t = makeRedirectUrl D s"
  by (simp add: makeRedirectUrl_def redirectUrl_def)

lemma stub_prepare:
  "signAndPrepareTransaction stubDeps tx0 conn0 opts0 s = Inr (tx0, sendOptions opts0)"
  "signAndPrepareTransaction stubDeps tx1 conn0 opts0 s = Inr (tx1, sendOptions opts0)"
  by (simp_all add: signAndPrepareTransaction_def tx0_def tx1_def opts0_def)

lemma storage_names:
  "deepLinkPublicKeyStorage \<noteq> deepLinkSecretKeyStorage"
  "deepLinkPublicKeyStorage \<noteq> deepLinkSharedSecretStorage"
  "deepLinkPublicKeyStorage \<noteq> deepLinkSessionStorage"
  "deepLinkSecretKeyStorage \<noteq> deepLinkSharedSecretStorage"
  "deepLinkSecretKeyStorage \<noteq> deepLinkSessionStorage"
  "deepLinkSharedSecretStorage \<noteq> deepLinkSessionStorage"
  by (simp_all add: deepLinkPublicKeyStorage_def deepLinkSecretKeyStorage_def
        deepLinkSharedSecretStorage_def deepLinkSessionStorage_def)

lemma stub_dispatch_storage:
  "localStorageGetUint8 stubDeps deepLinkPublicKeyStorage dispatchState = (Inr [1], dispatchState)"
  "localStorageGetUint8 stubDeps deepLinkSharedSecretStorage dispatchState =
     (Inr [7, 2], dispatchState)"
  "localStorage dispatchState deepLinkSessionStorage = None"
  using storage_names
  by (simp_all add: localStorageGetUint8_def dispatchState_def stub_new stubDeps_def)

lemma sendTransactionUsingDeepLink_navigations:
  "(\<forall>sig. fst (sendTransactionUsingDeepLink D tx c opts s) = Inr sig \<longrightarrow>
      sig = ''TransactionSignature'' \<and>
      (\<exists>u. navigations (snd (sendTransactionUsingDeepLink D tx c opts s)) = navigations s @ [u] \<and>
           base u = ''https://phantom.app/ul/v1/signAndSendTransaction'')) \<and>
   ((\<exists>e. fst (sendTransactionUsingDeepLink D tx c opts s) = Inl e) \<longrightarrow>
      navigations (snd (sendTransactionUsingDeepLink D tx c opts s)) = navigations s)"
proof -
  obtain r1 s1 where g1: "localStorageGetUint8 D deepLinkPublicKeyStorage s = (r1, s1)"
    by (cases "localStorageGetUint8 D deepLinkPublicKeyStorage s")
  obtain r2 s2 where g2: "localStorageGetUint8 D deepLinkSharedSecretStorage s1 = (r2, s2)"
    by (cases "localStorageGetUint8 D deepLinkSharedSecretStorage s1")
  have n: "navigations s1 = navigations s" "navigations s2 = navigations s"
    using localStorageGetUint8_fields(7)[of D deepLinkPublicKeyStorage s]
          localStorageGetUint8_fields(7)[of D deepLinkSharedSecretStorage s1] g1 g2
    by simp_all
  show ?thesis
    unfolding sendTransactionUsingDeepLink_def
    using g1 g2 n
    by (simp add: Let_def sendTransactionUrl_def makeDeepLinkUrl_def
          split: sum.splits prod.splits)
qed

lemma stub_dispatch:
  "sendTransactionUsingDeepLink stubDeps tx0 conn0 opts0 dispatchState =
     (Inr ''TransactionSignature'',
      dispatchState\<lparr>randomBytes_calls := 1,
        navigations :=
          [\<lparr>base = ''https://phantom.app/ul/v1/signAndSendTransaction'',
            searchParams = [(''dapp_encryption_public_key'', ''pkD''), (''nonce'', ''enc''),
                            (''redirect_link'', ''https://dapp.example/''),
                            (''payload'', ''enc'')],
            fragment = []\<rparr>]\<rparr>)"
  "fst (sendTransactionUsingDeepLink stubDeps tx1 conn0 opts0 dispatchState) =
     Inr ''TransactionSignature''"
proof -
  have d: "transaction_serialize stubDeps t = Inr (content t)"
    "nacl_box_after stubDeps m n k = Inr m" "nacl_randomBytes stubDeps i l = [3]"
    "bs58_encode stubDeps [1] = ''pkD''" "bs58_encode stubDeps [3] = ''enc''"
    "bs58_encode stubDeps [8] = ''enc''" "JSON_stringify stubDeps p = [8]"
    "url_toString stubDeps u = base u" for t m n k i l p u
    by (simp_all add: stubDeps_def)
  have l: "base (location dispatchState) = ''https://dapp.example/''"
    "navigations dispatchState = []" "randomBytes_calls dispatchState = 0"
    by (simp_all add: dispatchState_def stub_new)
  show "sendTransactionUsingDeepLink stubDeps tx0 conn0 opts0 dispatchState =
     (Inr ''TransactionSignature'',
      dispatchState\<lparr>randomBytes_calls := 1,
        navigations :=
          [\<lparr>base = ''https://phantom.app/ul/v1/signAndSendTransaction'',
            searchParams = [(''dapp_encryption_public_key'', ''pkD''), (''nonce'', ''enc''),
                            (''redirect_link'', ''https://dapp.example/''),
                            (''payload'', ''enc'')],
            fragment = []\<rparr>]\<rparr>)"
    by (simp add: sendTransactionUsingDeepLink_def stub_prepare stub_dispatch_storage Let_def
        sendTransactionUrl_def makeDeepLinkUrl_def makeRedirectUrl_def redirectUrl_def d l)
  show "fst (sendTransactionUsingDeepLink stubDeps tx1 conn0 opts0 dispatchState) =
     Inr ''TransactionSignature''"
    by (simp add: sendTransactionUsingDeepLink_def stub_prepare stub_dispatch_storage Let_def d)
qed

lemma stub_dispatch_ready:
  "readyState dispatchState = Loadable" "publicKey dispatchState = None"
  by (simp_all add: readyState_def publicKey_def dispatchState_def stub_new)

text \<open>
  Claim C10. In \<open>sendTransactionUsingDeepLink\<close>, once the transaction is prepared, a
  missing (or empty) stored dapp public key makes the call fail with the error
  \<open>Key PHANTOM_DEEP_LINK_PUBLIC_KEY not stored\<close>, which is also emitted as an error event,
  and nothing is assigned to \<open>window.location.href\<close>; the same holds for a missing
  shared secret. A missing session token is no failure: the payload is built with the
  session field \<open>null\<close>, encrypted, and the browser is sent to the
  \<open>signAndSendTransaction\<close> URL.
\<close>

theorem deepLink_dispatch_storage:
  assumes "signAndPrepareTransaction D tx c opts s = Inr (ptx, so)"
  shows "(localStorage s deepLinkPublicKeyStorage = None \<or>
          localStorage s deepLinkPublicKeyStorage = Some [] \<longrightarrow>
            sendTransactionUsingDeepLink D tx c opts s =
              (Inl (key_not_stored deepLinkPublicKeyStorage),
               emit (ErrorEvent (key_not_stored deepLinkPublicKeyStorage)) s) \<and>
            navigations (snd (sendTransactionUsingDeepLink D tx c opts s)) = navigations s) \<and>
         (\<forall>pk. fst (localStorageGetUint8 D deepLinkPublicKeyStorage s) = Inr pk \<and>
            (localStorage s deepLinkSharedSecretStorage = None \<or>
             localStorage s deepLinkSharedSecretStorage = Some []) \<longrightarrow>
            sendTransactionUsingDeepLink D tx c opts s =
              (Inl (key_not_stored deepLinkSharedSecretStorage),
               emit (ErrorEvent (key_not_stored deepLinkSharedSecretStorage)) s) \<and>
            navigations (snd (sendTransactionUsingDeepLink D tx c opts s)) = navigations s) \<and>
         (\<forall>pk secret ser enc.
            fst (localStorageGetUint8 D deepLinkPublicKeyStorage s) = Inr pk \<and>
            fst (localStorageGetUint8 D deepLinkSharedSecretStorage s) = Inr secret \<and>
            localStorage s deepLinkSessionStorage = None \<and>
            transaction_serialize D ptx = Inr ser \<and>
            nacl_box_after D
              (JSON_stringify D \<lparr>payload_transaction = bs58_encode D ser,
                                  payload_sendOptions = so, payload_session = None\<rparr>)
              (nacl_randomBytes D (randomBytes_calls s) 24) secret = Inr enc \<longrightarrow>
            sendTransactionUsingDeepLink D tx c opts s =
              (Inr ''TransactionSignature'',
               s\<lparr>randomBytes_calls := randomBytes_calls s + 1,
                  navigations := navigations s @
                    [makeDeepLinkUrl ''signAndSendTransaction''
                       [(''dapp_encryption_public_key'', bs58_encode D pk),
                        (''nonce'', bs58_encode D (nacl_randomBytes D (randomBytes_calls s) 24)),
                        (''redirect_link'', url_toString D (redirectUrl s)),
                        (''payload'', bs58_encode D enc)]]\<rparr>))"
proof (intro conjI allI impI)
  assume m: "localStorage s deepLinkPublicKeyStorage = None \<or>
             localStorage s deepLinkPublicKeyStorage = Some []"
  show "sendTransactionUsingDeepLink D tx c opts s =
          (Inl (key_not_stored deepLinkPublicKeyStorage),
           emit (ErrorEvent (key_not_stored deepLinkPublicKeyStorage)) s)"
    by (simp add: sendTransactionUsingDeepLink_def assms localStorageGetUint8_missing[OF m])
  then show "navigations (snd (sendTransactionUsingDeepLink D tx c opts s)) = navigations s"
    by simp
next
  fix pk
  assume h: "fst (localStorageGetUint8 D deepLinkPublicKeyStorage s) = Inr pk \<and>
             (localStorage s deepLinkSharedSecretStorage = None \<or>
              localStorage s deepLinkSharedSecretStorage = Some [])"
  show "sendTransactionUsingDeepLink D tx c opts s =
          (Inl (key_not_stored deepLinkSharedSecretStorage),
           emit (ErrorEvent (key_not_stored deepLinkSharedSecretStorage)) s)"
    using h
    by (simp add: sendTransactionUsingDeepLink_def assms localStorageGetUint8_missing
          localStorageGetUint8_Inr)
  then show "navigations (snd (sendTransactionUsingDeepLink D tx c opts s)) = navigations s"
    by simp
next
  fix pk secret ser enc
  assume h: "fst (localStorageGetUint8 D deepLinkPublicKeyStorage s) = Inr pk \<and>
            fst (localStorageGetUint8 D deepLinkSharedSecretStorage s) = Inr secret \<and>
            localStorage s deepLinkSessionStorage = None \<and>
            transaction_serialize D ptx = Inr ser \<and>
            nacl_box_after D
              (JSON_stringify D \<lparr>payload_transaction = bs58_encode D ser,
                                  payload_sendOptions = so, payload_session = None\<rparr>)
              (nacl_randomBytes D (randomBytes_calls s) 24) secret = Inr enc"
  have r: "makeRedirectUrl D (s\<lparr>randomBytes_calls := n\<rparr>) = url_toString D (redirectUrl s)" for n
    by (simp add: makeRedirectUrl_def redirectUrl_def)
  show "sendTransactionUsingDeepLink D tx c opts s =
              (Inr ''TransactionSignature'',
               s\<lparr>randomBytes_calls := randomBytes_calls s + 1,
                  navigations := navigations s @
                    [makeDeepLinkUrl ''signAndSendTransaction''
                       [(''dapp_encryption_public_key'', bs58_encode D pk),
                        (''nonce'', bs58_encode D (nacl_randomBytes D (randomBytes_calls s) 24)),
                        (''redirect_link'', url_toString D (redirectUrl s)),
                        (''payload'', bs58_encode D enc)]]\<rparr>)"
    using h
    by (simp add: sendTransactionUsingDeepLink_def assms localStorageGetUint8_Inr Let_def
          sendTransactionUrl_def r)
qed

text \<open>
  The three cases on concrete pages: empty storage, storage with the public key only, and
  storage with the public key and the shared secret but no session token.
\<close>

theorem deepLink_dispatch_storage_witness:
  "sendTransactionUsingDeepLink stubDeps tx0 conn0 opts0 (constructor (stubPage [] [])) =
     (Inl (key_not_stored deepLinkPublicKeyStorage),
      emit (ErrorEvent (key_not_stored deepLinkPublicKeyStorage)) (constructor (stubPage [] []))) \<and>
   sendTransactionUsingDeepLink stubDeps tx0 conn0 opts0
       (constructor (stubPage [] [(deepLinkPublicKeyStorage, ''1'')])) =
     (Inl (key_not_stored deepLinkSharedSecretStorage),
      emit (ErrorEvent (key_not_stored deepLinkSharedSecretStorage))
        (constructor (stubPage [] [(deepLinkPublicKeyStorage, ''1'')]))) \<and>
   fst (sendTransactionUsingDeepLink stubDeps tx0 conn0 opts0 dispatchState) =
     Inr ''TransactionSignature'' \<and>
   length (navigations (snd (sendTransactionUsingDeepLink stubDeps tx0 conn0 opts0 dispatchState)))
     = 1"
proof -
  note t = deepLink_dispatch_storage[OF stub_prepare(1)]
  have a: "localStorage (constructor (stubPage [] [])) deepLinkPublicKeyStorage = None"
    by (simp add: stub_new)
  have b: "fst (localStorageGetUint8 stubDeps deepLinkPublicKeyStorage
                  (constructor (stubPage [] [(deepLinkPublicKeyStorage, ''1'')]))) = Inr [1]"
          "localStorage (constructor (stubPage [] [(deepLinkPublicKeyStorage, ''1'')]))
             deepLinkSharedSecretStorage = None"
    using storage_names by (simp_all add: localStorageGetUint8_def stub_new stubDeps_def)
  have c: "transaction_serialize stubDeps tx0 = Inr [10]"
          "nacl_box_after stubDeps m n k = Inr m" for m n k
    by (simp_all add: stubDeps_def tx0_def)
  from t[of "constructor (stubPage [] [])"] a
  have 1: "sendTransactionUsingDeepLink stubDeps tx0 conn0 opts0 (constructor (stubPage [] [])) =
     (Inl (key_not_stored deepLinkPublicKeyStorage),
      emit (ErrorEvent (key_not_stored deepLinkPublicKeyStorage)) (constructor (stubPage [] [])))"
    by simp
  from t[of "constructor (stubPage [] [(deepLinkPublicKeyStorage, ''1'')])"] b
  have 2: "sendTransactionUsingDeepLink stubDeps tx0 conn0 opts0
       (constructor (stubPage [] [(deepLinkPublicKeyStorage, ''1'')])) =
     (Inl (key_not_stored deepLinkSharedSecretStorage),
      emit (ErrorEvent (key_not_stored deepLinkSharedSecretStorage))
        (constructor (stubPage [] [(deepLinkPublicKeyStorage, ''1'')])))"
    by simp
  from t[of dispatchState] stub_dispatch_storage c
  have 3: "fst (sendTransactionUsingDeepLink stubDeps tx0 conn0 opts0 dispatchState) =
     Inr ''TransactionSignature'' \<and>
     length (navigations (snd (sendTransactionUsingDeepLink stubDeps tx0 conn0 opts0 dispatchState)))
       = 1"
    by (simp add: dispatchState_def stub_new)
  from 1 2 3 show ?thesis by simp
qed

text \<open>
  Claim C1, as amended. With the ready state \<open>Loadable\<close>, \<open>sendTransaction\<close> has two
  outcomes. Either it fails, and then nothing was assigned to \<open>window.location.href\<close>. Or
  it has sent the browser to the \<open>signAndSendTransaction\<close> URL of the wallet application,
  and then its result is the constant string \<open>TransactionSignature\<close>, which stands in for
  the signature the redirect round trip has not produced yet.
\<close>

theorem sendTransaction_deepLink_result:
  assumes "readyState s = Loadable"
  shows "(\<forall>sig. fst (sendTransaction D tx c opts s) = Inr sig \<longrightarrow>
            sig = ''TransactionSignature'' \<and>
            (\<exists>u. navigations (snd (sendTransaction D tx c opts s)) = navigations s @ [u] \<and>
                 base u = ''https://phantom.app/ul/v1/signAndSendTransaction'')) \<and>
         ((\<exists>e. fst (sendTransaction D tx c opts s) = Inl e) \<longrightarrow>
            navigations (snd (sendTransaction D tx c opts s)) = navigations s)"
  using assms sendTransactionUsingDeepLink_navigations[of D tx c opts s]
  by (simp add: sendTransaction_def)

text \<open>A dispatch that succeeds, on the concrete page.\<close>

theorem sendTransaction_deepLink_result_witness:
  "readyState dispatchState = Loadable \<and>
   fst (sendTransaction stubDeps tx0 conn0 opts0 dispatchState) = Inr ''TransactionSignature'' \<and>
   length (navigations (snd (sendTransaction stubDeps tx0 conn0 opts0 dispatchState))) = 1"
  using sendTransaction_deepLink_result[OF stub_dispatch_ready(1), of stubDeps tx0 conn0 opts0]
        stub_dispatch(1) stub_dispatch_ready(1)
  by (simp add: sendTransaction_def)

text \<open>
  Claim C1 as stated does not hold: the result of a dispatch is a value of the signature
  type that is no signature. Two different transactions sent from the same state both
  yield the string \<open>TransactionSignature\<close>.
\<close>

theorem sendTransaction_placeholder_counterexample:
  "readyState dispatchState = Loadable \<and> tx0 \<noteq> tx1 \<and>
   fst (sendTransaction stubDeps tx0 conn0 opts0 dispatchState) = Inr ''TransactionSignature'' \<and>
   fst (sendTransaction stubDeps tx1 conn0 opts0 dispatchState) = Inr ''TransactionSignature''"
  using stub_dispatch stub_dispatch_ready(1)
  by (simp add: sendTransaction_def tx0_def tx1_def)

text \<open>
  The guard the other paths share: with no extension object attached, the three signing
  methods and the extension branch of \<open>sendTransaction\<close> fail with
  \<open>WalletNotConnectedError\<close> and emit it.
\<close>

lemma not_connected_without_wallet:
  assumes "priv_wallet s = None"
  shows "signTransaction D tx s =
           (Inl (Thrown WalletNotConnectedError [] None),
            emit (ErrorEvent (Thrown WalletNotConnectedError [] None)) s)"
    and "signAllTransactions D txs s =
           (Inl (Thrown WalletNotConnectedError [] None),
            emit (ErrorEvent (Thrown WalletNotConnectedError [] None)) s)"
    and "signMessage D msg s =
           (Inl (Thrown WalletNotConnectedError [] None),
            emit (ErrorEvent (Thrown WalletNotConnectedError [] None)) s)"
    and "readyState s \<noteq> Loadable \<Longrightarrow>
         sendTransaction D tx c opts s =
           (Inl (Thrown WalletNotConnectedError [] None),
            emit (ErrorEvent (Thrown WalletNotConnectedError [] None)) s)"
  using assms
  by (simp_all add: signTransaction_def signAllTransactions_def signMessage_def
        sendTransaction_def sendTransaction_extension_def catch_emit_def)

text \<open>
  Claim C3 at the input where the code departs from it: an adapter with the ready state
  \<open>Loadable\<close> and no public key is asked to send a versioned transaction. No
  \<open>WalletNotConnectedError\<close> is raised: the transaction is encrypted, the browser is
  sent to the wallet application and the call returns the placeholder string.
\<close>

theorem sendTransaction_deepLink_without_identity:
  "publicKey dispatchState = None \<and> readyState dispatchState = Loadable \<and>
   sendTransaction stubDeps tx0 conn0 opts0 dispatchState =
     (Inr ''TransactionSignature'',
      dispatchState\<lparr>randomBytes_calls := 1,
        navigations :=
          [\<lparr>base = ''https://phantom.app/ul/v1/signAndSendTransaction'',
            searchParams = [(''dapp_encryption_public_key'', ''pkD''), (''nonce'', ''enc''),
                            (''redirect_link'', ''https://dapp.example/''),
                            (''payload'', ''enc'')],
            fragment = []\<rparr>]\<rparr>)"
  using stub_dispatch(1) stub_dispatch_ready
  by (simp add: sendTransaction_def)

subsection \<open>The completion phase of the deep-link connection\<close>




lemma stub_return:
  "localStorageGetUint8 stubDeps deepLinkSecretKeyStorage (returnState d) = (Inr [2], returnState d)"
  "localStorage (returnState d) deepLinkSharedSecretStorage = None"
  "localStorage (returnState d) deepLinkSessionStorage = None"
  "priv_publicKey (returnState d) = None"
  "emitted (returnState d) = [ReadyStateChange Loadable]"
  "priv_wallet (returnState d) = None"
  using storage_names
  by (simp_all add: localStorageGetUint8_def returnState_def stub_new stubDeps_def)

lemma stub_crypto:
  "bs58_decode stubDeps ''pkW'' = Inr [7]" "bs58_decode stubDeps ''n1'' = Inr [9]"
  "bs58_decode stubDeps ''data'' = Inr [5]" "bs58_decode stubDeps ''tampered'' = Inr [0]"
  "nacl_box_before stubDeps pk sk = Inr (pk @ sk)"
  "nacl_box_open_after stubDeps [5] nn secret = Inr (Some [6])"
  "nacl_box_open_after stubDeps [0] nn secret = Inr None"
  "JSON_parse stubDeps b = Inr \<lparr>public_key = Some ''addr'', session = Some ''tok1''\<rparr>"
  "new_PublicKey_string stubDeps (Some a) = Inr [4]"
  by (simp_all add: stubDeps_def)

lemma toString_72: "uint8_toString [7, 2] = ''7,2''"
  by (simp add: uint8_toString_def byte_toString_def digit_char_def)

lemma stub_handshake:
  "handleConnectionDeepLinkParams stubDeps ''pkW'' ''n1'' ''data'' s =
     (case localStorageGetUint8 stubDeps deepLinkSecretKeyStorage s of
        (Inl e, s1) \<Rightarrow> (Inl e, s1)
      | (Inr sk, s1) \<Rightarrow>
          (Inr (), emit (Connect [4])
             ((localStorageSet deepLinkSessionStorage ''tok1''
                (localStorageSet deepLinkSharedSecretStorage (uint8_toString ([7] @ sk)) s1))
              \<lparr>priv_publicKey := Some [4]\<rparr>)))"
  by (simp add: handleConnectionDeepLinkParams_def stub_crypto Let_def String_of_def
        localStorageSet_def split: prod.splits sum.splits)

lemma stub_return_params:
  "responseParams ((returnState ''data'')\<lparr>priv_connecting := True\<rparr>) =
     Some (''pkW'', ''n1'', ''data'')"
  "responseParams (rejectedState\<lparr>priv_connecting := True\<rparr>) = None"
  "responseParams rejectedState = None"
  by (simp_all add: responseParams_def returnState_def rejectedState_def stub_new
        searchParams_get_def)

lemma stub_return_guards:
  "\<not> connected (returnState d)" "\<not> connecting (returnState d)" "window (returnState d) = Defined"
  "priv_readyState (returnState d) = Loadable"
  "\<not> connected rejectedState" "\<not> connecting rejectedState" "window rejectedState = Defined"
  "priv_readyState rejectedState = Loadable"
  by (simp_all add: connected_def connecting_def returnState_def rejectedState_def stub_new)

lemma stub_handshake_connect:
  "connect stubDeps (returnState ''data'') =
     (Inr (), emit (Connect [4])
        ((localStorageSet deepLinkSessionStorage ''tok1''
           (localStorageSet deepLinkSharedSecretStorage ''7,2'' (returnState ''data'')))
         \<lparr>priv_publicKey := Some [4]\<rparr>))"
proof -
  have g: "localStorageGetUint8 stubDeps deepLinkSecretKeyStorage
             ((returnState ''data'')\<lparr>priv_connecting := True\<rparr>) =
           (Inr [2], (returnState ''data'')\<lparr>priv_connecting := True\<rparr>)"
    using stub_return(1)[of "''data''"]
    by (simp add: localStorageGetUint8_def split: option.splits if_splits)
  have c: "priv_connecting (returnState ''data'') = False"
    using stub_return_guards(2)[of "''data''"] by (simp add: connecting_def)
  have "connect_try stubDeps (returnState ''data'') =
     (Inr (), emit (Connect [4])
        ((localStorageSet deepLinkSessionStorage ''tok1''
           (localStorageSet deepLinkSharedSecretStorage ''7,2''
              ((returnState ''data'')\<lparr>priv_connecting := True\<rparr>)))
         \<lparr>priv_publicKey := Some [4]\<rparr>))"
    using stub_return_guards(1-4)[of "''data''"]
    by (simp add: connect_try_def connect_deepLink_def stub_return_params stub_handshake g
          toString_72)
  then show ?thesis
    using c by (simp add: connect_def catch_emit_def emit_def localStorageSet_def)
qed




text \<open>
  Claim C4 at the input where the code departs from it: the wallet application redirects
  back with an authentic response. \<open>connect\<close> succeeds, sets the public key, stores the
  session token and emits the connect event, and \<open>connected\<close> is still false, because
  the getter reads \<open>_wallet\<close> only and the deep-link path never sets it.
\<close>

theorem connected_false_after_handshake:
  "fst (connect stubDeps (returnState ''data'')) = Inr () \<and>
   publicKey (snd (connect stubDeps (returnState ''data''))) = Some [4] \<and>
   emitted (snd (connect stubDeps (returnState ''data''))) =
     [ReadyStateChange Loadable, Connect [4]] \<and>
   localStorage (snd (connect stubDeps (returnState ''data''))) deepLinkSessionStorage =
     Some ''tok1'' \<and>
   \<not> connected (snd (connect stubDeps (returnState ''data'')))"
  using stub_return(5,6)[of "''data''"]
  by (simp add: stub_handshake_connect publicKey_def connected_def)

text \<open>
  Claim C5 at the input where the code departs from it: the wallet application redirects
  back with \<open>errorCode\<close> and \<open>errorMessage\<close>. \<open>connect\<close> reads neither: it finds no
  response, emits no error, draws a new key pair and sends the browser to the connect URL
  again.
\<close>

theorem connect_ignores_error_response:
  "searchParams (location rejectedState) =
     [(''errorCode'', ''4001''), (''errorMessage'', ''User rejected the request.'')] \<and>
   fst (connect stubDeps rejectedState) = Inr () \<and>
   emitted (snd (connect stubDeps rejectedState)) = [ReadyStateChange Loadable] \<and>
   publicKey (snd (connect stubDeps rejectedState)) = None \<and>
   box_keyPair_calls (snd (connect stubDeps rejectedState)) = 1 \<and>
   navigations (snd (connect stubDeps rejectedState)) =
     [\<lparr>base = ''https://phantom.app/ul/v1/connect'',
       searchParams = [(''app_url'', ''https://dapp.example/''),
                       (''dapp_encryption_public_key'', ''pkD''),
                       (''redirect_link'', ''https://dapp.example/''),
                       (''cluster'', ''devnet'')],
       fragment = []\<rparr>]"
proof -
  have d: "nacl_box_keyPair stubDeps i = ([1], [2])" "bs58_encode stubDeps [1] = ''pkD''"
    "url_toString stubDeps u = base u" for i u
    by (simp_all add: stubDeps_def)
  have l: "searchParams (location rejectedState) =
             [(''errorCode'', ''4001''), (''errorMessage'', ''User rejected the request.'')]"
    "base (location rejectedState) = ''https://dapp.example/''"
    "emitted rejectedState = [ReadyStateChange Loadable]" "navigations rejectedState = []"
    "box_keyPair_calls rejectedState = 0" "priv_publicKey rejectedState = None"
    by (simp_all add: rejectedState_def stub_new)
  show ?thesis
    unfolding connect_request[OF stub_return_guards(8,5,6,7) stub_return_params(3)]
    by (simp add: connectUsingDeepLink_def Let_def makeRedirectUrl_def makeDeepLinkUrl_def
          redirectUrl_def searchParams_delete_def d l publicKey_def)
qed

subsection \<open>Failures of the delegates\<close>

lemma signAndPrepareTransaction_typed:
  "signAndPrepareTransaction D tx c opts s = Inl e \<Longrightarrow> instanceof_WalletError e"
  by (auto simp add: signAndPrepareTransaction_def instanceof_WalletError_def wrap_def
        split: sum.splits if_splits)

text \<open>
  The extension path. With an extension object attached, \<open>signTransaction\<close>,
  \<open>signAllTransactions\<close> and \<open>signMessage\<close> wrap every failure of the object's method
  into a \<open>WalletSignTransactionError\<close> (for the first two) or a \<open>WalletSignMessageError\<close>,
  keeping the message and the original error as cause. \<open>sendTransaction\<close> on this path
  lets a failure that is a \<open>WalletError\<close> pass unchanged and wraps any other into a
  \<open>WalletSendTransactionError\<close> with the same message and cause.
\<close>

lemma extension_path_wrapping:
  assumes "priv_wallet s = Some r"
  shows "(\<forall>e. wallet_signTransaction D (heap s r) tx = Inl e \<longrightarrow>
            fst (signTransaction D tx s) =
              Inl (Thrown WalletSignTransactionError (message e) (Some e))) \<and>
         (\<forall>e. wallet_signAllTransactions D (heap s r) txs = Inl e \<longrightarrow>
            fst (signAllTransactions D txs s) =
              Inl (Thrown WalletSignTransactionError (message e) (Some e))) \<and>
         (\<forall>e. wallet_signMessage D (heap s r) msg = Inl e \<longrightarrow>
            fst (signMessage D msg s) =
              Inl (Thrown WalletSignMessageError (message e) (Some e))) \<and>
         (readyState s \<noteq> Loadable \<longrightarrow>
            (\<forall>e. signAndPrepareTransaction D tx c opts s = Inl e \<longrightarrow>
               instanceof_WalletError e \<and> fst (sendTransaction D tx c opts s) = Inl e) \<and>
            (\<forall>ptx so e.
               signAndPrepareTransaction D tx c opts s = Inr (ptx, so) \<and>
               wallet_signAndSendTransaction D (heap s r) ptx
                 (so\<lparr>preflightCommitment :=
                    logical_or (preflightCommitment so) (commitment c)\<rparr>) = Inl e \<longrightarrow>
               fst (sendTransaction D tx c opts s) =
                 Inl (if instanceof_WalletError e then e
                      else Thrown WalletSendTransactionError (message e) (Some e))))"
proof -
  have sign: "\<forall>e. wallet_signTransaction D (heap s r) tx = Inl e \<longrightarrow>
            fst (signTransaction D tx s) =
              Inl (Thrown WalletSignTransactionError (message e) (Some e))"
    using assms by (simp add: signTransaction_def catch_emit_def wrap_def)
  have signAll: "\<forall>e. wallet_signAllTransactions D (heap s r) txs = Inl e \<longrightarrow>
            fst (signAllTransactions D txs s) =
              Inl (Thrown WalletSignTransactionError (message e) (Some e))"
    using assms by (simp add: signAllTransactions_def catch_emit_def wrap_def)
  have signMsg: "\<forall>e. wallet_signMessage D (heap s r) msg = Inl e \<longrightarrow>
            fst (signMessage D msg s) =
              Inl (Thrown WalletSignMessageError (message e) (Some e))"
    using assms by (simp add: signMessage_def catch_emit_def wrap_def)
  have send1: "instanceof_WalletError e \<and> fst (sendTransaction D tx c opts s) = Inl e"
    if "readyState s \<noteq> Loadable" "signAndPrepareTransaction D tx c opts s = Inl e" for e
    using that assms signAndPrepareTransaction_typed[OF that(2)]
    by (simp add: sendTransaction_def sendTransaction_extension_def catch_emit_def)
  have send2: "fst (sendTransaction D tx c opts s) =
                 Inl (if instanceof_WalletError e then e
                      else Thrown WalletSendTransactionError (message e) (Some e))"
    if "readyState s \<noteq> Loadable" "signAndPrepareTransaction D tx c opts s = Inr (ptx, so)"
       "wallet_signAndSendTransaction D (heap s r) ptx
                 (so\<lparr>preflightCommitment :=
                    logical_or (preflightCommitment so) (commitment c)\<rparr>) = Inl e" for ptx so e
    using that assms
    by (simp add: sendTransaction_def sendTransaction_extension_def catch_emit_def wrap_def)
  show ?thesis
    using sign signAll signMsg send1 send2 by blast
qed

lemma dispatchState_reachable: "reachable D dispatchState"
  unfolding dispatchState_def by (rule r_new) (simp_all add: stubPage_def)

text \<open>
  Claim C6 at the input where the code departs from it: a freshly constructed adapter
  whose stored shared secret is not 32 bytes long is asked to send a transaction.
  \<open>nacl.box.after\<close> throws a plain \<open>Error\<close>, and \<open>sendTransaction\<close> rejects with that
  very error: it is not wrapped into a \<open>WalletSendTransactionError\<close>, and no error
  event is emitted, because the promise of the deep-link path is returned without
  \<open>await\<close> and so bypasses the \<open>catch\<close> that the extension path goes through.
\<close>

theorem sendTransaction_deepLink_foreign_failure:
  "reachable strictDeps dispatchState \<and> readyState dispatchState = Loadable \<and>
   \<not> instanceof_WalletError bad_key_size \<and>
   sendTransaction strictDeps tx0 conn0 opts0 dispatchState =
     (Inl bad_key_size, dispatchState\<lparr>randomBytes_calls := 1\<rparr>) \<and>
   emitted (snd (sendTransaction strictDeps tx0 conn0 opts0 dispatchState)) =
     emitted dispatchState"
proof -
  have prep: "signAndPrepareTransaction strictDeps tx0 conn0 opts0 s = Inr (tx0, sendOptions opts0)"
    for s
    by (simp add: signAndPrepareTransaction_def tx0_def opts0_def)
  have g: "localStorageGetUint8 strictDeps deepLinkPublicKeyStorage dispatchState =
             (Inr [1], dispatchState)"
    "localStorageGetUint8 strictDeps deepLinkSharedSecretStorage dispatchState =
             (Inr [7, 2], dispatchState)"
    using stub_dispatch_storage(1,2)
    by (simp_all add: localStorageGetUint8_def strictDeps_def split: option.splits if_splits)
  have d: "transaction_serialize strictDeps tx0 = Inr [10]"
    "nacl_box_after strictDeps m n [7, 2] = Inl bad_key_size" for m n
    by (simp_all add: strictDeps_def stubDeps_def tx0_def)
  have l: "randomBytes_calls dispatchState = 0"
    by (simp add: dispatchState_def stub_new)
  have s: "sendTransaction strictDeps tx0 conn0 opts0 dispatchState =
     (Inl bad_key_size, dispatchState\<lparr>randomBytes_calls := 1\<rparr>)"
    using stub_dispatch_ready(1)
    by (simp add: sendTransaction_def sendTransactionUsingDeepLink_def prep g d l Let_def)
  show ?thesis
    using dispatchState_reachable[of strictDeps] stub_dispatch_ready(1) s
    by (simp add: bad_key_size_def instanceof_WalletError_def)
qed

subsection \<open>disconnect after the deep-link handshake\<close>

lemma stub_returned_reachable:
  "reachable D (snd (connect D (returnState d)))"
  by (rule r_connect, unfold returnState_def, rule r_new) (simp_all add: stubPage_def)

text \<open>
  Claim C8 at the input where the code departs from it: \<open>disconnect\<close> is called after a
  successful deep-link handshake. It does not throw and emits the disconnect event, but
  its guard is the attached extension object, which the deep-link path never sets: the
  public key stays set and the session token stays in storage.
\<close>

theorem disconnect_keeps_deepLink_identity:
  "reachable stubDeps (snd (connect stubDeps (returnState ''data''))) \<and>
   publicKey (snd (connect stubDeps (returnState ''data''))) = Some [4] \<and>
   localStorage (snd (connect stubDeps (returnState ''data''))) deepLinkSessionStorage =
     Some ''tok1'' \<and>
   disconnect stubDeps (snd (connect stubDeps (returnState ''data''))) =
     (Inr (), emit Disconnect (snd (connect stubDeps (returnState ''data'')))) \<and>
   publicKey (snd (disconnect stubDeps (snd (connect stubDeps (returnState ''data''))))) =
     Some [4] \<and>
   localStorage (snd (disconnect stubDeps (snd (connect stubDeps (returnState ''data'')))))
     deepLinkSessionStorage = Some ''tok1''"
proof -
  have w: "priv_wallet (snd (connect stubDeps (returnState ''data''))) = None"
    using stub_return(6)[of "''data''"] by (simp add: stub_handshake_connect)
  have p: "publicKey (snd (connect stubDeps (returnState ''data''))) = Some [4]"
    "localStorage (snd (connect stubDeps (returnState ''data''))) deepLinkSessionStorage =
       Some ''tok1''"
    by (simp_all add: stub_handshake_connect publicKey_def)
  have d: "disconnect stubDeps (snd (connect stubDeps (returnState ''data''))) =
     (Inr (), emit Disconnect (snd (connect stubDeps (returnState ''data''))))"
    using w by (simp add: disconnect_def)
  show ?thesis
    using stub_returned_reachable[of stubDeps "''data''"] p d
    by (simp add: publicKey_def)
qed

end
